theory Spec2Isabelle
  imports Main
begin

section \<open>The CSS selector builder of \<^verbatim>\<open>src/05-objects-tasks.js\<close>\<close>

subsection \<open>Data model\<close>

text \<open>
  The six keys of \<^verbatim>\<open>selectorOccurances\<close>, which are also the entries of
  \<^verbatim>\<open>validOrder\<close> and the argument of the two checking methods. The source uses the
  string literals \<^verbatim>\<open>'element'\<close>, \<^verbatim>\<open>'id'\<close>, \<^verbatim>\<open>'class'\<close>, \<^verbatim>\<open>'attr'\<close>,
  \<^verbatim>\<open>'pseudoClass'\<close>, \<^verbatim>\<open>'pseudoElement'\<close>; no other key is ever passed. The key
  \<^verbatim>\<open>'id'\<close> is \<open>Id_selector\<close>, since \<open>Id\<close> is the identity relation of HOL.
\<close>

datatype selectorType = Element | Id_selector | Class | Attr | PseudoClass | PseudoElement

text \<open>
  The two \<^verbatim>\<open>throw new Error(...)\<close> sites; the source tells the two errors apart by
  their message only, the names are those of the specification.
  \<open>DuplicateSelectorPart\<close> is the error thrown by
  \<^verbatim>\<open>handleNumberOfOccurances\<close> ("Element, id and pseudo-element should not occur more
  then one time inside the selector"), \<open>OrderViolation\<close> the one thrown by
  \<^verbatim>\<open>checkSelectorsOrder\<close> ("Selector parts should be arranged in the following order:
  ...").
\<close>

datatype error = DuplicateSelectorPart | OrderViolation

text \<open>
  The fields assigned by the constructor. \<^verbatim>\<open>selectorOccurances\<close> is an object with exactly
  the six keys above, so it is a total function on \<^typ>\<open>selectorType\<close>; the counts only
  start at 0 and grow by \<^verbatim>\<open>+= 1\<close>, so they are natural numbers. The field
  \<^verbatim>\<open>validOrder\<close> is written once by the constructor and never again; it is the constant
  \<open>validOrder\<close> below.

  Strings are lists of characters of any length: the arguments of the methods are taken
  to be strings, and the host's limit on the length of a string is not modelled. Every
  append except the single \<^verbatim>\<open>element\<close> writes at least one character, so the counts stay
  far below \<open>2^53\<close>, where \<^verbatim>\<open>+= 1\<close> on a double would stop counting.
\<close>

record CssSelectorBuilder =
  "value" :: string
  selectorsToCombine :: "string list"
  selectorOccurances :: "selectorType \<Rightarrow> nat"

definition validOrder :: "selectorType list" where
  "validOrder = [Element, Id_selector, Class, Attr, PseudoClass, PseudoElement]"

text \<open>\<^verbatim>\<open>new CssSelectorBuilder()\<close>.\<close>

definition new_CssSelectorBuilder :: CssSelectorBuilder where
  "new_CssSelectorBuilder =
     \<lparr>value = [], selectorsToCombine = [], selectorOccurances = (\<lambda>_. 0)\<rparr>"

text \<open>
  A method call on a builder either returns (every appending method and \<^verbatim>\<open>combine\<close>
  return \<^verbatim>\<open>this\<close>, so the returned object is the builder itself in its new state) or
  throws. In both cases the builder object lives on, so both outcomes carry the state the
  object has when control leaves the method.
\<close>

datatype outcome = Returned CssSelectorBuilder | Raised error CssSelectorBuilder

subsection \<open>Array helpers of the host language\<close>

text \<open>\<^verbatim>\<open>Array.prototype.indexOf\<close>: the first index of the element, or -1.\<close>

fun indexOf :: "'a list \<Rightarrow> 'a \<Rightarrow> int" where
  "indexOf [] x = -1"
| "indexOf (y # ys) x =
     (if y = x then 0 else (let i = indexOf ys x in if i < 0 then -1 else i + 1))"

text \<open>
  \<^verbatim>\<open>Array.prototype.slice(start)\<close> with one argument: a negative start counts from the
  end (clamped at 0), a non-negative one drops that many elements.
\<close>

definition slice :: "int \<Rightarrow> 'a list \<Rightarrow> 'a list" where
  "slice start xs =
     (if start < 0 then drop (nat (int (length xs) + start)) xs else drop (nat start) xs)"

text \<open>\<^verbatim>\<open>Array.prototype.join(sep)\<close> on an array of strings.\<close>

fun join :: "string \<Rightarrow> string list \<Rightarrow> string" where
  "join sep [] = []"
| "join sep [x] = x"
| "join sep (x # y # ys) = x @ sep @ join sep (y # ys)"

subsection \<open>The two checks\<close>

text \<open>
  \<^verbatim>\<open>handleNumberOfOccurances(selectorType)\<close>: throws when the count of that key is truthy,
  that is non-zero. It writes nothing; \<open>Some e\<close> means that it throws \<open>e\<close>.
\<close>

definition handleNumberOfOccurances :: "selectorType \<Rightarrow> CssSelectorBuilder \<Rightarrow> error option" where
  "handleNumberOfOccurances selectorType this =
     (if selectorOccurances this selectorType \<noteq> 0 then Some DuplicateSelectorPart else None)"

text \<open>
  \<^verbatim>\<open>checkSelectorsOrder(selectorType)\<close>: the entries of \<^verbatim>\<open>validOrder\<close> after the position
  of the given key, filtered by a truthy count; throws when that array is not empty.
\<close>

definition checkSelectorsOrder :: "selectorType \<Rightarrow> CssSelectorBuilder \<Rightarrow> error option" where
  "checkSelectorsOrder selectorType this =
     (let nextSelectorOrder =
            filter (\<lambda>type. selectorOccurances this type \<noteq> 0)
              (slice (indexOf validOrder selectorType + 1) validOrder)
      in if length nextSelectorOrder \<noteq> 0 then Some OrderViolation else None)"

subsection \<open>The appending methods\<close>

text \<open>
  Each method runs its statements in the order of the source: the checks first (a throw
  leaves the method with the state as it is at that point), then the increment of the
  count, then the append to \<^verbatim>\<open>value\<close>. The methods \<^verbatim>\<open>id\<close> and \<^verbatim>\<open>class\<close> are
  \<open>id_method\<close> and \<open>class_method\<close> here, since both names are taken in Isabelle/HOL.
\<close>

definition element :: "string \<Rightarrow> CssSelectorBuilder \<Rightarrow> outcome" where
  "element v this =
     (case handleNumberOfOccurances Element this of
        Some e \<Rightarrow> Raised e this
      | None \<Rightarrow>
          (case checkSelectorsOrder Element this of
             Some e \<Rightarrow> Raised e this
           | None \<Rightarrow>
               (let this1 = this\<lparr>selectorOccurances :=
                              (selectorOccurances this)(Element := selectorOccurances this Element + 1)\<rparr>;
                    this2 = this1\<lparr>value := value this1 @ v\<rparr>
                in Returned this2)))"

definition id_method :: "string \<Rightarrow> CssSelectorBuilder \<Rightarrow> outcome" where
  "id_method v this =
     (case handleNumberOfOccurances Id_selector this of
        Some e \<Rightarrow> Raised e this
      | None \<Rightarrow>
          (case checkSelectorsOrder Id_selector this of
             Some e \<Rightarrow> Raised e this
           | None \<Rightarrow>
               (let this1 = this\<lparr>selectorOccurances :=
                              (selectorOccurances this)(Id_selector := selectorOccurances this Id_selector + 1)\<rparr>;
                    this2 = this1\<lparr>value := value this1 @ ''#'' @ v\<rparr>
                in Returned this2)))"

definition class_method :: "string \<Rightarrow> CssSelectorBuilder \<Rightarrow> outcome" where
  "class_method v this =
     (case checkSelectorsOrder Class this of
        Some e \<Rightarrow> Raised e this
      | None \<Rightarrow>
          (let this1 = this\<lparr>selectorOccurances :=
                         (selectorOccurances this)(Class := selectorOccurances this Class + 1)\<rparr>;
               this2 = this1\<lparr>value := value this1 @ ''.'' @ v\<rparr>
           in Returned this2))"

definition attr :: "string \<Rightarrow> CssSelectorBuilder \<Rightarrow> outcome" where
  "attr v this =
     (case checkSelectorsOrder Attr this of
        Some e \<Rightarrow> Raised e this
      | None \<Rightarrow>
          (let this1 = this\<lparr>selectorOccurances :=
                         (selectorOccurances this)(Attr := selectorOccurances this Attr + 1)\<rparr>;
               this2 = this1\<lparr>value := value this1 @ ''['' @ v @ '']''\<rparr>
           in Returned this2))"

definition pseudoClass :: "string \<Rightarrow> CssSelectorBuilder \<Rightarrow> outcome" where
  "pseudoClass v this =
     (case checkSelectorsOrder PseudoClass this of
        Some e \<Rightarrow> Raised e this
      | None \<Rightarrow>
          (let this1 = this\<lparr>selectorOccurances :=
                         (selectorOccurances this)(PseudoClass := selectorOccurances this PseudoClass + 1)\<rparr>;
               this2 = this1\<lparr>value := value this1 @ '':'' @ v\<rparr>
           in Returned this2))"

text \<open>\<^verbatim>\<open>pseudoElement\<close> calls the duplicate check only: the source has no order check here.\<close>

definition pseudoElement :: "string \<Rightarrow> CssSelectorBuilder \<Rightarrow> outcome" where
  "pseudoElement v this =
     (case handleNumberOfOccurances PseudoElement this of
        Some e \<Rightarrow> Raised e this
      | None \<Rightarrow>
          (let this1 = this\<lparr>selectorOccurances :=
                         (selectorOccurances this)(PseudoElement := selectorOccurances this PseudoElement + 1)\<rparr>;
               this2 = this1\<lparr>value := value this1 @ ''::'' @ v\<rparr>
           in Returned this2))"

subsection \<open>Rendering and combining\<close>

text \<open>
  \<^verbatim>\<open>stringify()\<close>: when \<^verbatim>\<open>selectorsToCombine\<close> is not empty, its truthy (non-empty)
  strings joined by one space; otherwise \<^verbatim>\<open>value\<close>. The result is the returned string
  together with the state of the object after the call.
\<close>

definition stringify :: "CssSelectorBuilder \<Rightarrow> string \<times> CssSelectorBuilder" where
  "stringify this =
     (if length (selectorsToCombine this) \<noteq> 0
      then (join '' '' (filter (\<lambda>item. item \<noteq> []) (selectorsToCombine this)), this)
      else (value this, this))"

text \<open>
  \<^verbatim>\<open>combine(selector1, combinator, selector2)\<close>: a no-op returning \<^verbatim>\<open>this\<close> when
  \<^verbatim>\<open>selectorsToCombine\<close> is not empty; otherwise it pushes \<^verbatim>\<open>selector1.value\<close>, the
  combinator, \<^verbatim>\<open>selector2.value\<close> and the elements of
  \<^verbatim>\<open>selector2.selectorsToCombine\<close>. All four arguments of \<^verbatim>\<open>push\<close> are evaluated
  before the push, so the model is also right when \<^verbatim>\<open>selector1\<close> or \<^verbatim>\<open>selector2\<close> is
  \<^verbatim>\<open>this\<close>. The template literal around the combinator is the identity on strings.
\<close>

definition combine ::
  "CssSelectorBuilder \<Rightarrow> string \<Rightarrow> CssSelectorBuilder \<Rightarrow> CssSelectorBuilder \<Rightarrow> outcome" where
  "combine selector1 combinator selector2 this =
     (if length (selectorsToCombine this) \<noteq> 0 then Returned this
      else Returned (this\<lparr>selectorsToCombine :=
             selectorsToCombine this
               @ [value selector1, combinator, value selector2]
               @ selectorsToCombine selector2\<rparr>))"

subsection \<open>The facade \<^verbatim>\<open>cssSelectorBuilder\<close>\<close>

definition cssSelectorBuilder_element :: "string \<Rightarrow> outcome" where
  "cssSelectorBuilder_element v = element v new_CssSelectorBuilder"

definition cssSelectorBuilder_id :: "string \<Rightarrow> outcome" where
  "cssSelectorBuilder_id v = id_method v new_CssSelectorBuilder"

definition cssSelectorBuilder_class :: "string \<Rightarrow> outcome" where
  "cssSelectorBuilder_class v = class_method v new_CssSelectorBuilder"

definition cssSelectorBuilder_attr :: "string \<Rightarrow> outcome" where
  "cssSelectorBuilder_attr v = attr v new_CssSelectorBuilder"

definition cssSelectorBuilder_pseudoClass :: "string \<Rightarrow> outcome" where
  "cssSelectorBuilder_pseudoClass v = pseudoClass v new_CssSelectorBuilder"

definition cssSelectorBuilder_pseudoElement :: "string \<Rightarrow> outcome" where
  "cssSelectorBuilder_pseudoElement v = pseudoElement v new_CssSelectorBuilder"

definition cssSelectorBuilder_combine ::
  "CssSelectorBuilder \<Rightarrow> string \<Rightarrow> CssSelectorBuilder \<Rightarrow> outcome" where
  "cssSelectorBuilder_combine selector1 combinator selector2 =
     combine selector1 combinator selector2 new_CssSelectorBuilder"

subsection \<open>Chains of calls\<close>

text \<open>
  One appending call, selected by its kind, and a fluent chain of calls
  \<^verbatim>\<open>s.m1(v1).m2(v2)...\<close>: the chain stops at the first throw.
\<close>

fun append_call :: "selectorType \<Rightarrow> string \<Rightarrow> CssSelectorBuilder \<Rightarrow> outcome" where
  "append_call Element v this = element v this"
| "append_call Id_selector v this = id_method v this"
| "append_call Class v this = class_method v this"
| "append_call Attr v this = attr v this"
| "append_call PseudoClass v this = pseudoClass v this"
| "append_call PseudoElement v this = pseudoElement v this"

datatype invocation =
    Append selectorType string
  | Combine CssSelectorBuilder string CssSelectorBuilder
  | Stringify

fun invoke :: "invocation \<Rightarrow> CssSelectorBuilder \<Rightarrow> outcome" where
  "invoke (Append k v) this = append_call k v this"
| "invoke (Combine selector1 combinator selector2) this = combine selector1 combinator selector2 this"
| "invoke Stringify this = Returned (snd (stringify this))"

fun invoke_all :: "invocation list \<Rightarrow> CssSelectorBuilder \<Rightarrow> outcome" where
  "invoke_all [] this = Returned this"
| "invoke_all (c # cs) this =
     (case invoke c this of
        Raised e this' \<Rightarrow> Raised e this'
      | Returned this' \<Rightarrow> invoke_all cs this')"

text \<open>\<open>n\<close> calls of \<^verbatim>\<open>stringify()\<close> in a row: the strings returned, and the final state.\<close>

fun stringify_times :: "nat \<Rightarrow> CssSelectorBuilder \<Rightarrow> string list \<times> CssSelectorBuilder" where
  "stringify_times 0 this = ([], this)"
| "stringify_times (Suc n) this =
     (let (str, this') = stringify this;
          (strs, this'') = stringify_times n this'
      in (str # strs, this''))"

subsection \<open>Notions used in the statements\<close>

text \<open>The state of the builder object when a call has returned or thrown.\<close>

fun state_of :: "outcome \<Rightarrow> CssSelectorBuilder" where
  "state_of (Returned this) = this"
| "state_of (Raised e this) = this"

text \<open>
  The canonical rendering of one fragment, in the words of the specification: type name
  as-is, id as \<^verbatim>\<open>#name\<close>, class as \<^verbatim>\<open>.name\<close>, attribute as \<^verbatim>\<open>[spec]\<close>, pseudo-class
  as \<^verbatim>\<open>:name\<close>, pseudo-element as \<^verbatim>\<open>::name\<close>. It is compared below with what the
  appending methods write.
\<close>

fun canonical_rendering :: "selectorType \<Rightarrow> string \<Rightarrow> string" where
  "canonical_rendering Element name = name"
| "canonical_rendering Id_selector name = ''#'' @ name"
| "canonical_rendering Class name = ''.'' @ name"
| "canonical_rendering Attr spec = ''['' @ spec @ '']''"
| "canonical_rendering PseudoClass name = '':'' @ name"
| "canonical_rendering PseudoElement name = ''::'' @ name"

text \<open>The kinds that \<^verbatim>\<open>handleNumberOfOccurances\<close> is called for.\<close>

definition capped :: "selectorType \<Rightarrow> bool" where
  "capped k = (k = Element \<or> k = Id_selector \<or> k = PseudoElement)"

text \<open>The rank of a kind is its position in \<^verbatim>\<open>validOrder\<close>.\<close>

definition rank :: "selectorType \<Rightarrow> int" where
  "rank k = indexOf validOrder k"

subsection \<open>Selectors used in the concrete evaluations\<close>

text \<open>\<^verbatim>\<open>cssSelectorBuilder.element('a').id('b')\<close>.\<close>

definition selector_a_b :: CssSelectorBuilder where
  "selector_a_b =
     state_of (invoke_all [Append Element ''a'', Append Id_selector ''b''] new_CssSelectorBuilder)"

text \<open>\<^verbatim>\<open>cssSelectorBuilder.class('x')\<close>.\<close>

definition selector_x :: CssSelectorBuilder where
  "selector_x = state_of (cssSelectorBuilder_class ''x'')"

text \<open>
  \<^verbatim>\<open>cssSelectorBuilder.combine(cssSelectorBuilder.element('a'), '>', cssSelectorBuilder.element('b'))\<close>.
\<close>

definition chain_a_b :: CssSelectorBuilder where
  "chain_a_b =
     state_of (cssSelectorBuilder_combine
       (state_of (cssSelectorBuilder_element ''a'')) ''>''
       (state_of (cssSelectorBuilder_element ''b'')))"

section \<open>The rectangle and the JSON helpers\<close>

subsection \<open>Values of the host language\<close>

text \<open>
  The values the three functions \<^verbatim>\<open>Rectangle\<close>, \<^verbatim>\<open>getJSON\<close> and \<^verbatim>\<open>fromJSON\<close> handle
  on a rectangle: numbers, strings, the function created by \<^verbatim>\<open>Rectangle\<close>, plain objects
  and \<^verbatim>\<open>null\<close>.
  \<^item> \<open>JNumber n\<close> is the number with the integer value \<open>n\<close>; it stands for a double, which
    is exact for \<open>\<bar>n\<bar> \<le> 2^53\<close>. Arithmetic and parsing leave the model (\<open>None\<close>) beyond
    that bound.
  \<^item> \<open>JObject props proto\<close> is an object with its own enumerable string-keyed properties in
    the order the host enumerates them (creation order; keys that are array indices, which
    the host enumerates first, are kept out of the model) and its prototype, an object or
    \<open>JNull\<close>.
  \<^item> \<open>JFunction (Rectangle_getArea width height)\<close> is the closure that the method
    definition \<^verbatim>\<open>getArea() { return width * height; }\<close> creates: it captures the two
    parameters of \<^verbatim>\<open>Rectangle\<close>.
  \<^item> \<open>JFunction This_width_times_height\<close> is a method as a caller of \<^verbatim>\<open>fromJSON\<close> puts it
    on a prototype, \<^verbatim>\<open>function () { return this.width * this.height; }\<close>: the comment of
    \<^verbatim>\<open>fromJSON\<close> has such a prototype in mind (\<^verbatim>\<open>Circle.prototype\<close>). It is an input
    of \<^verbatim>\<open>fromJSON\<close>, not code of the source file.
\<close>

datatype jsvalue =
    JNumber int
  | JString string
  | JFunction closure
  | JObject "(string \<times> jsvalue) list" jsvalue
  | JNull
and closure = Rectangle_getArea jsvalue jsvalue | This_width_times_height

text \<open>
  \<^verbatim>\<open>Object.prototype\<close>, the prototype of object literals and of parsed objects. Its
  built-in properties (\<^verbatim>\<open>toString\<close>, \<^verbatim>\<open>hasOwnProperty\<close>, ...) are not modelled.
\<close>

definition Object_prototype :: jsvalue where
  "Object_prototype = JObject [] JNull"

definition exact :: "int \<Rightarrow> bool" where
  "exact n = (\<bar>n\<bar> \<le> 2 ^ 53)"

text \<open>
  The operator \<^verbatim>\<open>*\<close> on two numbers whose product is exact as a double. Other operands
  (coercions, rounding, \<^verbatim>\<open>NaN\<close>) are outside the model.
\<close>

fun multiply :: "jsvalue \<Rightarrow> jsvalue \<Rightarrow> jsvalue option" where
  "multiply (JNumber a) (JNumber b) =
     (if exact a \<and> exact b \<and> exact (a * b) then Some (JNumber (a * b)) else None)"
| "multiply _ _ = None"

text \<open>
  Property lookup \<^verbatim>\<open>obj.name\<close>: the object's own property, else the prototype's, along
  the chain; \<open>None\<close> is \<^verbatim>\<open>undefined\<close> (or a receiver that is not a plain object).
\<close>

fun Get :: "jsvalue \<Rightarrow> string \<Rightarrow> jsvalue option" where
  "Get (JObject props proto) name =
     (case map_of props name of Some v \<Rightarrow> Some v | None \<Rightarrow> Get proto name)"
| "Get _ name = None"

text \<open>
  Calling a function value with a receiver: the body of the function. A product with an
  operand that is \<^verbatim>\<open>undefined\<close> is outside the model.
\<close>

fun Call :: "closure \<Rightarrow> jsvalue \<Rightarrow> jsvalue option" where
  "Call (Rectangle_getArea width height) this = multiply width height"
| "Call This_width_times_height this =
     (case Get this ''width'' of
        None \<Rightarrow> None
      | Some w \<Rightarrow> (case Get this ''height'' of None \<Rightarrow> None | Some h \<Rightarrow> multiply w h))"

text \<open>
  The method call \<^verbatim>\<open>obj.name()\<close>: looks the property up and calls it with \<^verbatim>\<open>obj\<close> as
  receiver; \<open>None\<close> when the property is not a function (the host throws a TypeError).
\<close>

definition call_method :: "jsvalue \<Rightarrow> string \<Rightarrow> jsvalue option" where
  "call_method obj name =
     (case Get obj name of Some (JFunction f) \<Rightarrow> Call f obj | _ \<Rightarrow> None)"

subsection \<open>\<^verbatim>\<open>Rectangle\<close>\<close>

text \<open>
  The object literal \<^verbatim>\<open>{ width, height, getArea() {...} }\<close>: three own properties in this
  order. Called with \<^verbatim>\<open>new\<close>, the function still returns this object.
\<close>

definition Rectangle :: "jsvalue \<Rightarrow> jsvalue \<Rightarrow> jsvalue" where
  "Rectangle width height =
     JObject [(''width'', width), (''height'', height),
              (''getArea'', JFunction (Rectangle_getArea width height))] Object_prototype"

subsection \<open>\<^verbatim>\<open>JSON.stringify\<close> and \<^verbatim>\<open>getJSON\<close>\<close>

text \<open>The decimal digits of a non-negative integer, as the host prints an integral number.\<close>

definition digit_char :: "nat \<Rightarrow> char" where
  "digit_char d = ''0123456789'' ! d"

fun nat_toString :: "nat \<Rightarrow> string" where
  "nat_toString n =
     (if n < 10 then [digit_char n] else nat_toString (n div 10) @ [digit_char (n mod 10)])"

declare nat_toString.simps [simp del]

definition Number_toString :: "int \<Rightarrow> string" where
  "Number_toString n = (if n < 0 then ''-'' @ nat_toString (nat (- n)) else nat_toString (nat n))"

text \<open>
  Quoting of a string in JSON text: the double quote (0x22) and the backslash (0x5C) get a
  backslash, the control characters their short escape or \<^verbatim>\<open>\u00XX\<close>.
\<close>

definition hex_char :: "nat \<Rightarrow> char" where
  "hex_char d = ''0123456789abcdef'' ! d"

definition QuoteJSONString_char :: "char \<Rightarrow> string" where
  "QuoteJSONString_char c =
     (if c = CHR 0x22 then [CHR 0x5C, CHR 0x22]
      else if c = CHR 0x5C then [CHR 0x5C, CHR 0x5C]
      else if c = CHR 0x08 then [CHR 0x5C, CHR ''b'']
      else if c = CHR 0x09 then [CHR 0x5C, CHR ''t'']
      else if c = CHR 0x0A then [CHR 0x5C, CHR ''n'']
      else if c = CHR 0x0C then [CHR 0x5C, CHR ''f'']
      else if c = CHR 0x0D then [CHR 0x5C, CHR ''r'']
      else if (of_char c :: nat) < 32
        then [CHR 0x5C, CHR ''u'', CHR ''0'', CHR ''0'',
              hex_char ((of_char c :: nat) div 16), hex_char ((of_char c :: nat) mod 16)]
      else [c])"

definition QuoteJSONString :: "string \<Rightarrow> string" where
  "QuoteJSONString s = [CHR 0x22] @ concat (map QuoteJSONString_char s) @ [CHR 0x22]"

text \<open>
  Serialisation of a value, with no replacer and no indentation: a function has no JSON
  text (\<open>None\<close>, the host's \<^verbatim>\<open>undefined\<close>), and a property holding one is left out of
  its object. Only own properties are written. No object of the model has a
  \<^verbatim>\<open>toJSON\<close> method.
\<close>

fun SerializeJSONProperty :: "jsvalue \<Rightarrow> string option"
  and SerializeJSONObject_members :: "(string \<times> jsvalue) list \<Rightarrow> string list" where
  "SerializeJSONProperty (JNumber n) = Some (Number_toString n)"
| "SerializeJSONProperty (JString s) = Some (QuoteJSONString s)"
| "SerializeJSONProperty (JFunction f) = None"
| "SerializeJSONProperty JNull = Some ''null''"
| "SerializeJSONProperty (JObject props proto) =
     Some (''{'' @ join '','' (SerializeJSONObject_members props) @ ''}'')"
| "SerializeJSONObject_members [] = []"
| "SerializeJSONObject_members ((k, v) # ps) =
     (case SerializeJSONProperty v of
        None \<Rightarrow> SerializeJSONObject_members ps
      | Some str \<Rightarrow> (QuoteJSONString k @ '':'' @ str) # SerializeJSONObject_members ps)"

definition JSON_stringify :: "jsvalue \<Rightarrow> string option" where
  "JSON_stringify v = SerializeJSONProperty v"

text \<open>\<^verbatim>\<open>getJSON(obj)\<close> returns \<^verbatim>\<open>JSON.stringify(obj)\<close>.\<close>

definition getJSON :: "jsvalue \<Rightarrow> string option" where
  "getJSON obj = JSON_stringify obj"

subsection \<open>\<^verbatim>\<open>JSON.parse\<close>, \<^verbatim>\<open>Object.setPrototypeOf\<close> and \<^verbatim>\<open>fromJSON\<close>\<close>

text \<open>
  The parser covers the JSON texts that are a number, a string, or one object whose
  members are numbers and strings: integers without fraction or exponent, strings without
  escapes. On every other text the result is \<open>None\<close>: either the host throws a SyntaxError,
  or the text is valid JSON outside this fragment (arrays, nested objects, literals,
  fractions, escapes, array-index keys).
\<close>

datatype token = TLBrace | TRBrace | TColon | TComma | TString string | TNumber int

datatype lexstate = Start | InString string | InNumber string

definition is_whitespace :: "char \<Rightarrow> bool" where
  "is_whitespace c = (c = CHR 0x20 \<or> c = CHR 0x09 \<or> c = CHR 0x0A \<or> c = CHR 0x0D)"

definition is_digit :: "char \<Rightarrow> bool" where
  "is_digit c = (48 \<le> (of_char c :: nat) \<and> (of_char c :: nat) \<le> 57)"

definition digit_value :: "char \<Rightarrow> nat" where
  "digit_value c = (of_char c :: nat) - 48"

fun digits_value :: "nat \<Rightarrow> string \<Rightarrow> nat" where
  "digits_value acc [] = acc"
| "digits_value acc (c # cs) = digits_value (acc * 10 + digit_value c) cs"

text \<open>A digit string without a leading zero (unless it is \<^verbatim>\<open>0\<close> itself).\<close>

definition unsigned_literal :: "string \<Rightarrow> nat option" where
  "unsigned_literal ds =
     (if ds = [] \<or> \<not> list_all is_digit ds then None
      else if hd ds = CHR ''0'' \<and> length ds \<noteq> 1 then None
      else Some (digits_value 0 ds))"

definition number_literal :: "string \<Rightarrow> int option" where
  "number_literal txt =
     (case (case txt of
              [] \<Rightarrow> None
            | c # cs \<Rightarrow>
                if c = CHR ''-'' then map_option (\<lambda>n. - int n) (unsigned_literal cs)
                else map_option int (unsigned_literal txt)) of
        None \<Rightarrow> None
      | Some n \<Rightarrow> if exact n then Some n else None)"

definition emit :: "token \<Rightarrow> token list option \<Rightarrow> token list option" where
  "emit t rest = map_option (\<lambda>ts. t # ts) rest"

function (sequential) tokenize :: "lexstate \<Rightarrow> string \<Rightarrow> token list option" where
  "tokenize Start [] = Some []"
| "tokenize Start (c # cs) =
     (if is_whitespace c then tokenize Start cs
      else if c = CHR ''{'' then emit TLBrace (tokenize Start cs)
      else if c = CHR ''}'' then emit TRBrace (tokenize Start cs)
      else if c = CHR '':'' then emit TColon (tokenize Start cs)
      else if c = CHR '','' then emit TComma (tokenize Start cs)
      else if c = CHR 0x22 then tokenize (InString []) cs
      else if c = CHR ''-'' \<or> is_digit c then tokenize (InNumber [c]) cs
      else None)"
| "tokenize (InString acc) [] = None"
| "tokenize (InString acc) (c # cs) =
     (if c = CHR 0x22 then emit (TString acc) (tokenize Start cs)
      else if c = CHR 0x5C \<or> (of_char c :: nat) < 32 then None
      else tokenize (InString (acc @ [c])) cs)"
| "tokenize (InNumber acc) [] =
     (case number_literal acc of None \<Rightarrow> None | Some n \<Rightarrow> Some [TNumber n])"
| "tokenize (InNumber acc) (c # cs) =
     (if is_digit c then tokenize (InNumber (acc @ [c])) cs
      else if c = CHR ''.'' \<or> c = CHR ''e'' \<or> c = CHR ''E'' then None
      else (case number_literal acc of
              None \<Rightarrow> None
            | Some n \<Rightarrow> emit (TNumber n) (tokenize Start (c # cs))))"
  by pat_completeness auto
termination
  by (relation "measure (\<lambda>(st, cs). 2 * length cs + (case st of InNumber _ \<Rightarrow> 1 | _ \<Rightarrow> 0))") auto

definition is_array_index :: "string \<Rightarrow> bool" where
  "is_array_index k = (unsigned_literal k \<noteq> None)"

text \<open>
  Defining a parsed member on the object under construction: a repeated key overwrites the
  value and keeps its place, a new key goes last.
\<close>

fun CreateDataProperty ::
  "(string \<times> jsvalue) list \<Rightarrow> string \<Rightarrow> jsvalue \<Rightarrow> (string \<times> jsvalue) list" where
  "CreateDataProperty [] k v = [(k, v)]"
| "CreateDataProperty ((k', v') # ps) k v =
     (if k' = k then (k, v) # ps else (k', v') # CreateDataProperty ps k v)"

fun scalar :: "token \<Rightarrow> jsvalue option" where
  "scalar (TNumber n) = Some (JNumber n)"
| "scalar (TString s) = Some (JString s)"
| "scalar _ = None"

fun parse_members ::
  "(string \<times> jsvalue) list \<Rightarrow> token list \<Rightarrow> (string \<times> jsvalue) list option" where
  "parse_members props (TString k # TColon # t # TRBrace # []) =
     (if is_array_index k then None
      else map_option (CreateDataProperty props k) (scalar t))"
| "parse_members props (TString k # TColon # t # TComma # rest) =
     (if is_array_index k then None
      else (case scalar t of
              None \<Rightarrow> None
            | Some v \<Rightarrow> parse_members (CreateDataProperty props k v) rest))"
| "parse_members props _ = None"

definition JSON_parse :: "string \<Rightarrow> jsvalue option" where
  "JSON_parse text =
     (case tokenize Start text of
        None \<Rightarrow> None
      | Some [t] \<Rightarrow> scalar t
      | Some [TLBrace, TRBrace] \<Rightarrow> Some (JObject [] Object_prototype)
      | Some (TLBrace # ts) \<Rightarrow>
          map_option (\<lambda>props. JObject props Object_prototype) (parse_members [] ts)
      | Some _ \<Rightarrow> None)"

text \<open>
  \<^verbatim>\<open>Object.setPrototypeOf(obj, proto)\<close> on a plain object: the prototype must be an object
  or \<^verbatim>\<open>null\<close> (else the host throws a TypeError); the object keeps its own properties and
  is returned. Other receivers and function prototypes are outside the model.
\<close>

fun Object_setPrototypeOf :: "jsvalue \<Rightarrow> jsvalue \<Rightarrow> jsvalue option" where
  "Object_setPrototypeOf (JObject props old) (JObject pprops pproto) =
     Some (JObject props (JObject pprops pproto))"
| "Object_setPrototypeOf (JObject props old) JNull = Some (JObject props JNull)"
| "Object_setPrototypeOf _ _ = None"

text \<open>
  \<^verbatim>\<open>fromJSON(proto, json)\<close>: parse, set the prototype of the parsed object, return it.
  \<open>None\<close> when one of the two host calls throws or leaves the model.
\<close>

definition fromJSON :: "jsvalue \<Rightarrow> string \<Rightarrow> jsvalue option" where
  "fromJSON proto json =
     (case JSON_parse json of
        None \<Rightarrow> None
      | Some parsedObject \<Rightarrow> Object_setPrototypeOf parsedObject proto)"

section \<open>Properties of the selector builder\<close>

subsection \<open>Auxiliary facts\<close>

lemma rank_simps:
  "rank Element = 0" "rank Id_selector = 1" "rank Class = 2" "rank Attr = 3"
  "rank PseudoClass = 4" "rank PseudoElement = 5"
  by (simp_all add: rank_def validOrder_def)

lemma ex_selectorType:
  "(\<exists>k. P k) = (P Element \<or> P Id_selector \<or> P Class \<or> P Attr \<or> P PseudoClass \<or> P PseudoElement)"
  by (metis selectorType.exhaust)

text \<open>The order check throws exactly when a kind further right in \<^verbatim>\<open>validOrder\<close> has a count.\<close>

lemma checkSelectorsOrder_iff:
  "checkSelectorsOrder k s =
     (if \<exists>k'. rank k < rank k' \<and> selectorOccurances s k' \<noteq> 0 then Some OrderViolation else None)"
  by (cases k)
    (simp_all add: checkSelectorsOrder_def validOrder_def slice_def rank_simps ex_selectorType)

text \<open>
  The six appending methods in one equation: the duplicate check (for the three kinds that
  have one) comes first, then the order check, then the two writes. What a method appends
  to \<^verbatim>\<open>value\<close> is the canonical rendering of the fragment.
\<close>

lemma append_call_cases:
  "append_call k v s =
     (if capped k \<and> selectorOccurances s k \<noteq> 0 then Raised DuplicateSelectorPart s
      else if \<exists>k'. rank k < rank k' \<and> selectorOccurances s k' \<noteq> 0 then Raised OrderViolation s
      else Returned (s\<lparr>selectorOccurances := (selectorOccurances s)(k := selectorOccurances s k + 1),
                       value := value s @ canonical_rendering k v\<rparr>))"
proof (cases k)
  case Element
  then show ?thesis
    by (auto simp add: element_def handleNumberOfOccurances_def checkSelectorsOrder_iff capped_def)
next
  case Id_selector
  then show ?thesis
    by (auto simp add: id_method_def handleNumberOfOccurances_def checkSelectorsOrder_iff capped_def)
next
  case Class
  then show ?thesis
    by (auto simp add: class_method_def checkSelectorsOrder_iff capped_def)
next
  case Attr
  then show ?thesis
    by (auto simp add: attr_def checkSelectorsOrder_iff capped_def)
next
  case PseudoClass
  then show ?thesis
    by (auto simp add: pseudoClass_def checkSelectorsOrder_iff capped_def)
next
  case PseudoElement
  then show ?thesis
    by (auto simp add: pseudoElement_def handleNumberOfOccurances_def capped_def rank_simps
        ex_selectorType)
qed


lemma selector_x_eq:
  "selector_x = \<lparr>value = ''.x'', selectorsToCombine = [],
      selectorOccurances = (\<lambda>_. 0)(Class := 1)\<rparr>"
  by (simp add: selector_x_def cssSelectorBuilder_class_def append_call_cases[of Class, simplified]
      new_CssSelectorBuilder_def capped_def rank_simps ex_selectorType)

lemma chain_a_b_eq:
  "chain_a_b = \<lparr>value = [], selectorsToCombine = [''a'', ''>'', ''b''],
      selectorOccurances = (\<lambda>_. 0)\<rparr>"
  by (simp add: chain_a_b_def cssSelectorBuilder_combine_def cssSelectorBuilder_element_def
      combine_def append_call_cases[of Element, simplified]
      new_CssSelectorBuilder_def capped_def rank_simps ex_selectorType)

text \<open>A chain of ascending appends, from any state that has no count in its way.\<close>

lemma invoke_all_appends:
  assumes "sorted (map (\<lambda>c. rank (fst c)) calls)"
    and "\<forall>k. capped k \<longrightarrow> count_list (map fst calls) k \<le> 1"
    and "\<forall>c \<in> set calls. \<forall>k'. rank (fst c) < rank k' \<longrightarrow> selectorOccurances s k' = 0"
    and "\<forall>c \<in> set calls. capped (fst c) \<longrightarrow> selectorOccurances s (fst c) = 0"
  shows "\<exists>s'. invoke_all (map (\<lambda>c. Append (fst c) (snd c)) calls) s = Returned s'
           \<and> value s' = value s @ concat (map (\<lambda>c. canonical_rendering (fst c) (snd c)) calls)
           \<and> selectorsToCombine s' = selectorsToCombine s"
  using assms
proof (induction calls arbitrary: s)
  case Nil
  then show ?case by simp
next
  case (Cons c calls)
  obtain k v where c: "c = (k, v)" by (cases c)
  let ?s1 = "s\<lparr>selectorOccurances := (selectorOccurances s)(k := selectorOccurances s k + 1),
                value := value s @ canonical_rendering k v\<rparr>"
  have nodup: "\<not> (capped k \<and> selectorOccurances s k \<noteq> 0)"
    using Cons.prems(4) c by auto
  have noorder: "\<not> (\<exists>k'. rank k < rank k' \<and> selectorOccurances s k' \<noteq> 0)"
    using Cons.prems(3) c by auto
  have step: "append_call k v s = Returned ?s1"
    using nodup noorder by (simp add: append_call_cases)
  have p1: "sorted (map (\<lambda>c. rank (fst c)) calls)"
    using Cons.prems(1) by simp
  have le: "\<forall>c' \<in> set calls. rank k \<le> rank (fst c')"
    using Cons.prems(1) c by simp
  have p2: "\<forall>k. capped k \<longrightarrow> count_list (map fst calls) k \<le> 1"
  proof (intro allI impI)
    fix k' assume "capped k'"
    then have "count_list (map fst (c # calls)) k' \<le> 1" using Cons.prems(2) by blast
    then show "count_list (map fst calls) k' \<le> 1" by (simp split: if_splits)
  qed
  have p3: "\<forall>c' \<in> set calls. \<forall>k'. rank (fst c') < rank k' \<longrightarrow> selectorOccurances ?s1 k' = 0"
  proof (intro ballI allI impI)
    fix c' k' assume c': "c' \<in> set calls" and lt: "rank (fst c') < rank k'"
    from le c' have "rank k \<le> rank (fst c')" by blast
    with lt have klt: "rank k < rank k'" by simp
    then have "k' \<noteq> k" by auto
    moreover have "selectorOccurances s k' = 0" using noorder klt by blast
    ultimately show "selectorOccurances ?s1 k' = 0" by simp
  qed
  have p4: "\<forall>c' \<in> set calls. capped (fst c') \<longrightarrow> selectorOccurances ?s1 (fst c') = 0"
  proof (intro ballI impI)
    fix c' assume c': "c' \<in> set calls" and cap: "capped (fst c')"
    have "fst c' \<noteq> k"
    proof
      assume eq: "fst c' = k"
      then have "k \<in> set (map fst calls)" using c' by force
      then have "count_list (map fst calls) k \<noteq> 0" by (simp only: count_list_0_iff not_not)
      then have "count_list (map fst (c # calls)) k > 1" using c by simp
      moreover have "count_list (map fst (c # calls)) k \<le> 1" using Cons.prems(2) cap eq by blast
      ultimately show False by simp
    qed
    moreover have "selectorOccurances s (fst c') = 0" using Cons.prems(4) c' cap by simp
    ultimately show "selectorOccurances ?s1 (fst c') = 0" by simp
  qed
  from Cons.IH[OF p1 p2 p3 p4] obtain s' where
    r: "invoke_all (map (\<lambda>c. Append (fst c) (snd c)) calls) ?s1 = Returned s'"
    and v: "value s' = value ?s1 @ concat (map (\<lambda>c. canonical_rendering (fst c) (snd c)) calls)"
    and ch: "selectorsToCombine s' = selectorsToCombine ?s1"
    by blast
  show ?case
    using step r v ch c by simp
qed

text \<open>No method lowers a count.\<close>

lemma invoke_occ_mono:
  "invoke c s = Returned s' \<Longrightarrow> selectorOccurances s k \<le> selectorOccurances s' k"
  by (cases c) (auto simp add: append_call_cases combine_def stringify_def split: if_splits)

lemma invoke_all_occ_mono:
  "invoke_all cs s = Returned s' \<Longrightarrow> selectorOccurances s k \<le> selectorOccurances s' k"
proof (induction cs arbitrary: s)
  case Nil
  then show ?case by simp
next
  case (Cons c cs)
  then show ?case
    by (auto split: outcome.splits dest!: invoke_occ_mono[where k = k] intro: le_trans)
qed

lemma replicate_uncapped:
  "\<not> capped k \<Longrightarrow> \<forall>k'. rank k < rank k' \<longrightarrow> selectorOccurances s k' = 0 \<Longrightarrow>
     \<exists>s'. invoke_all (replicate n (Append k v)) s = Returned s'"
proof (induction n arbitrary: s)
  case 0
  then show ?case by simp
next
  case (Suc n)
  let ?s1 = "s\<lparr>selectorOccurances := (selectorOccurances s)(k := selectorOccurances s k + 1),
                value := value s @ canonical_rendering k v\<rparr>"
  have step: "append_call k v s = Returned ?s1"
    using Suc.prems by (simp add: append_call_cases)
  have "\<forall>k'. rank k < rank k' \<longrightarrow> selectorOccurances ?s1 k' = 0"
    using Suc.prems(2) by auto
  from Suc.IH[OF Suc.prems(1) this] step show ?case by simp
qed

subsection \<open>The examples of the source's documentation\<close>

text \<open>The three examples in the comment above the class, evaluated on the model.\<close>

lemma doc_example_id_class:
  "fst (stringify (state_of (invoke_all
      [Append Id_selector ''main'', Append Class ''container'', Append Class ''editable'']
      new_CssSelectorBuilder))) = ''#main.container.editable''"
  by (simp add: append_call_cases new_CssSelectorBuilder_def capped_def rank_simps
      ex_selectorType stringify_def)

lemma doc_example_attr:
  \<open>fst (stringify (state_of (invoke_all
      [Append Element ''a'', Append Attr ''href$=".png"'', Append PseudoClass ''focus'']
      new_CssSelectorBuilder))) = ''a[href$=".png"]:focus''\<close>
  by (simp add: append_call_cases new_CssSelectorBuilder_def capped_def rank_simps
      ex_selectorType stringify_def)

lemma doc_example_combine:
  "fst (stringify (state_of (cssSelectorBuilder_combine
     (state_of (invoke_all
        [Append Element ''div'', Append Id_selector ''main'', Append Class ''container'',
         Append Class ''draggable''] new_CssSelectorBuilder))
     ''+''
     (state_of (cssSelectorBuilder_combine
        (state_of (invoke_all [Append Element ''table'', Append Id_selector ''data'']
           new_CssSelectorBuilder))
        ''~''
        (state_of (cssSelectorBuilder_combine
           (state_of (invoke_all [Append Element ''tr'', Append PseudoClass ''nth-of-type(even)'']
              new_CssSelectorBuilder))
           '' ''
           (state_of (invoke_all [Append Element ''td'', Append PseudoClass ''nth-of-type(even)'']
              new_CssSelectorBuilder)))))))))
   = ''div#main.container.draggable + table#data ~ tr:nth-of-type(even)   td:nth-of-type(even)''"
  by (simp add: append_call_cases new_CssSelectorBuilder_def capped_def rank_simps
      ex_selectorType stringify_def cssSelectorBuilder_combine_def combine_def)

subsection \<open>Combining a chain on the left\<close>

text \<open>
  Claim C1: when the left operand of \<^verbatim>\<open>combine\<close> is itself a combined chain, the rendering
  of the result begins with the whole rendered chain of the left operand, followed by the
  combinator and the right operand.

  The code does not do this. \<^verbatim>\<open>combine\<close> pushes \<^verbatim>\<open>selector1.value\<close>, and spreads the
  chain of \<^verbatim>\<open>selector2\<close> only; a selector made by the facade's \<^verbatim>\<open>combine\<close> has an empty
  \<^verbatim>\<open>value\<close>, which \<^verbatim>\<open>stringify\<close> then filters out. With the left operand
  \<^verbatim>\<open>combine(element('a'), '>', element('b'))\<close>, which renders as \<^verbatim>\<open>a > b\<close>, combining
  with \<^verbatim>\<open>'+'\<close> and \<^verbatim>\<open>element('c')\<close> renders as \<^verbatim>\<open>+ c\<close>: the left chain is lost.
\<close>

theorem combine_drops_left_chain:
  "fst (stringify chain_a_b) = ''a > b''
   \<and> fst (stringify (state_of (cssSelectorBuilder_combine chain_a_b ''+''
             (state_of (cssSelectorBuilder_element ''c''))))) = ''+ c''"
  by (simp add: chain_a_b_eq cssSelectorBuilder_combine_def cssSelectorBuilder_element_def
      combine_def append_call_cases[of Element, simplified] stringify_def
      new_CssSelectorBuilder_def capped_def rank_simps ex_selectorType)

subsection \<open>The order violation\<close>

text \<open>
  Claim C2, as stated: an appending call of kind \<open>K\<close> raises \<open>OrderViolation\<close> if and only
  if some kind of strictly higher rank has a non-zero count. This fails for
  \<^verbatim>\<open>element\<close> and \<^verbatim>\<open>id\<close>, which run the duplicate check first: on
  \<^verbatim>\<open>element('a').id('b')\<close> the higher kind \<open>Id_selector\<close> has count 1, yet \<^verbatim>\<open>element('c')\<close>
  raises \<open>DuplicateSelectorPart\<close>.
\<close>

theorem order_violation_counterexample:
  "invoke_all [Append Element ''a'', Append Id_selector ''b''] new_CssSelectorBuilder = Returned selector_a_b
   \<and> rank Element < rank Id_selector
   \<and> selectorOccurances selector_a_b Id_selector = 1
   \<and> append_call Element ''c'' selector_a_b = Raised DuplicateSelectorPart selector_a_b"
  by (simp add: selector_a_b_def append_call_cases new_CssSelectorBuilder_def capped_def
      rank_simps ex_selectorType)

text \<open>
  Claim C2, amended: an appending call of kind \<open>K\<close> raises \<open>OrderViolation\<close> if and only if
  some kind of strictly higher rank has a non-zero count and the duplicate check does not
  fire first, that is, unless \<open>K\<close> is one of the kinds with a duplicate check and \<open>K\<close> itself
  has a non-zero count.
\<close>

theorem order_violation_iff:
  "(\<exists>s'. append_call k v s = Raised OrderViolation s') =
     ((\<exists>k'. rank k < rank k' \<and> selectorOccurances s k' \<noteq> 0)
      \<and> \<not> (capped k \<and> selectorOccurances s k \<noteq> 0))"
  by (auto simp add: append_call_cases)

theorem order_violation_iff_witness:
  "(\<exists>s'. append_call Element ''div'' selector_x = Raised OrderViolation s')
   \<and> rank Element < rank Class \<and> selectorOccurances selector_x Class = 1
   \<and> selectorOccurances selector_x Element = 0"
  using order_violation_iff[of Element "''div''" selector_x]
  by (simp add: selector_x_eq capped_def rank_simps ex_selectorType)

subsection \<open>Ascending appends render as the concatenation of the fragments\<close>

text \<open>
  Claim C3: for every sequence of appending calls on a fresh builder whose kinds are in
  non-decreasing rank order, with at most one \<open>Element\<close>, one \<open>Id_selector\<close> and one
  \<open>PseudoElement\<close>, every call returns, and \<^verbatim>\<open>stringify\<close> returns the concatenation, in
  call order, of the canonical renderings of the fragments.
\<close>

theorem ascending_appends_render:
  assumes "sorted (map (\<lambda>c. rank (fst c)) calls)"
    and "count_list (map fst calls) Element \<le> 1"
    and "count_list (map fst calls) Id_selector \<le> 1"
    and "count_list (map fst calls) PseudoElement \<le> 1"
  shows "\<exists>s'. invoke_all (map (\<lambda>c. Append (fst c) (snd c)) calls) new_CssSelectorBuilder = Returned s'
           \<and> stringify s' = (concat (map (\<lambda>c. canonical_rendering (fst c) (snd c)) calls), s')"
proof -
  have caps: "\<forall>k. capped k \<longrightarrow> count_list (map fst calls) k \<le> 1"
    using assms(2-4) by (auto simp add: capped_def)
  have "\<exists>s'. invoke_all (map (\<lambda>c. Append (fst c) (snd c)) calls) new_CssSelectorBuilder = Returned s'
           \<and> value s' = value new_CssSelectorBuilder
                @ concat (map (\<lambda>c. canonical_rendering (fst c) (snd c)) calls)
           \<and> selectorsToCombine s' = selectorsToCombine new_CssSelectorBuilder"
    by (rule invoke_all_appends[OF assms(1) caps]) (simp_all add: new_CssSelectorBuilder_def)
  then show ?thesis
    by (auto simp add: stringify_def new_CssSelectorBuilder_def)
qed

theorem ascending_appends_render_witness:
  "sorted (map (\<lambda>c. rank (fst c))
      [(Element, ''a''), (Id_selector, ''main''), (Class, ''c1''), (Class, ''c2''), (Attr, ''href''),
       (PseudoClass, ''hover''), (PseudoElement, ''before'')])
   \<and> (\<exists>s'. invoke_all
          [Append Element ''a'', Append Id_selector ''main'', Append Class ''c1'', Append Class ''c2'',
           Append Attr ''href'', Append PseudoClass ''hover'', Append PseudoElement ''before'']
          new_CssSelectorBuilder = Returned s'
        \<and> stringify s' = (''a#main.c1.c2[href]:hover::before'', s'))"
  using ascending_appends_render[of
      "[(Element, ''a''), (Id_selector, ''main''), (Class, ''c1''), (Class, ''c2''), (Attr, ''href''),
       (PseudoClass, ''hover''), (PseudoElement, ''before'')]"]
  by (simp add: rank_simps)

subsection \<open>The first combine wins\<close>

text \<open>
  Claim C4: on a selector that already holds a combined chain, a further \<^verbatim>\<open>combine\<close>
  changes nothing and returns the selector as it is, so its rendering is unchanged. Every
  \<^verbatim>\<open>combine\<close> leaves a non-empty chain behind (it pushes at least three segments), so
  after one \<^verbatim>\<open>combine\<close> on any selector every later one is a no-op.
\<close>

theorem combine_again_noop:
  "(selectorsToCombine s \<noteq> [] \<longrightarrow>
      combine l c r s = Returned s
      \<and> stringify (state_of (combine l c r s)) = stringify s)
   \<and> selectorsToCombine (state_of (combine l0 c0 r0 s0)) \<noteq> []
   \<and> combine l c r (state_of (combine l0 c0 r0 s0)) = Returned (state_of (combine l0 c0 r0 s0))"
  by (simp add: combine_def)

theorem combine_again_noop_witness:
  "selectorsToCombine chain_a_b \<noteq> []
   \<and> combine selector_x ''~'' selector_a_b chain_a_b = Returned chain_a_b
   \<and> fst (stringify (state_of (combine selector_x ''~'' selector_a_b chain_a_b))) = ''a > b''"
  using combine_again_noop[of chain_a_b selector_x "''~''" selector_a_b]
  by (simp add: chain_a_b_eq stringify_def)

subsection \<open>Duplicate parts\<close>

text \<open>
  Claim C5: on every selector, once \<^verbatim>\<open>element\<close> (or \<^verbatim>\<open>id\<close>, or \<^verbatim>\<open>pseudoElement\<close>) has
  returned, a second invocation of the same method, after any further calls that returned,
  raises \<open>DuplicateSelectorPart\<close>. The methods \<^verbatim>\<open>class\<close>, \<^verbatim>\<open>attr\<close> and
  \<^verbatim>\<open>pseudoClass\<close> never raise \<open>DuplicateSelectorPart\<close>, and any number of invocations of
  one of them in a row on a fresh builder returns.
\<close>

theorem duplicate_parts:
  "(capped k \<longrightarrow>
      (\<forall>s v s1 cs s2 v'. append_call k v s = Returned s1 \<longrightarrow> invoke_all cs s1 = Returned s2 \<longrightarrow>
         append_call k v' s2 = Raised DuplicateSelectorPart s2))
   \<and> (\<not> capped k \<longrightarrow>
      (\<forall>s v s'. append_call k v s \<noteq> Raised DuplicateSelectorPart s')
      \<and> (\<forall>n v. \<exists>s'. invoke_all (replicate n (Append k v)) new_CssSelectorBuilder = Returned s'))"
proof (intro conjI impI allI)
  fix s v s1 cs s2 v'
  assume cap: "capped k" and a: "append_call k v s = Returned s1"
    and r: "invoke_all cs s1 = Returned s2"
  from a have "selectorOccurances s1 k \<noteq> 0"
    by (auto simp add: append_call_cases split: if_splits)
  moreover from r have "selectorOccurances s1 k \<le> selectorOccurances s2 k"
    by (rule invoke_all_occ_mono)
  ultimately have "selectorOccurances s2 k \<noteq> 0" by simp
  with cap show "append_call k v' s2 = Raised DuplicateSelectorPart s2"
    by (simp add: append_call_cases)
next
  fix s v s'
  assume "\<not> capped k"
  then show "append_call k v s \<noteq> Raised DuplicateSelectorPart s'"
    by (simp add: append_call_cases)
next
  fix n v
  assume "\<not> capped k"
  then show "\<exists>s'. invoke_all (replicate n (Append k v)) new_CssSelectorBuilder = Returned s'"
    by (rule replicate_uncapped) (simp add: new_CssSelectorBuilder_def)
qed

theorem duplicate_parts_witness:
  "capped Id_selector
   \<and> append_call Id_selector ''main'' new_CssSelectorBuilder = Returned (state_of (cssSelectorBuilder_id ''main''))
   \<and> invoke_all [Append Class ''c''] (state_of (cssSelectorBuilder_id ''main''))
        = Returned (state_of (invoke_all [Append Id_selector ''main'', Append Class ''c''] new_CssSelectorBuilder))
   \<and> append_call Id_selector ''other''
          (state_of (invoke_all [Append Id_selector ''main'', Append Class ''c''] new_CssSelectorBuilder))
        = Raised DuplicateSelectorPart
            (state_of (invoke_all [Append Id_selector ''main'', Append Class ''c''] new_CssSelectorBuilder))
   \<and> \<not> capped Class
   \<and> (\<exists>s'. invoke_all (replicate 3 (Append Class ''c'')) new_CssSelectorBuilder = Returned s')"
proof -
  let ?s1 = "state_of (cssSelectorBuilder_id ''main'')"
  let ?s2 = "state_of (invoke_all [Append Id_selector ''main'', Append Class ''c''] new_CssSelectorBuilder)"
  have c1: "capped Id_selector" and c2: "\<not> capped Class" by (simp_all add: capped_def)
  have a: "append_call Id_selector ''main'' new_CssSelectorBuilder = Returned ?s1"
    by (simp add: cssSelectorBuilder_id_def append_call_cases[of Id_selector, simplified]
        new_CssSelectorBuilder_def capped_def rank_simps ex_selectorType)
  have b: "invoke_all [Append Class ''c''] ?s1 = Returned ?s2"
    by (simp add: cssSelectorBuilder_id_def append_call_cases[of Id_selector, simplified]
        append_call_cases[of Class, simplified]
        new_CssSelectorBuilder_def capped_def rank_simps ex_selectorType)
  from duplicate_parts[of Id_selector] c1 a b
  have d: "append_call Id_selector ''other'' ?s2 = Raised DuplicateSelectorPart ?s2" by blast
  from duplicate_parts[of Class] c2
  have e: "\<exists>s'. invoke_all (replicate 3 (Append Class ''c'')) new_CssSelectorBuilder = Returned s'"
    by blast
  from c1 c2 a b d e show ?thesis by blast
qed

subsection \<open>A failed append leaves the selector as it was\<close>

text \<open>
  Claim C6: when an appending call raises \<open>DuplicateSelectorPart\<close> or \<open>OrderViolation\<close>,
  the state of the selector after the failed call is the state before it: \<^verbatim>\<open>value\<close>,
  every count and the chain are unchanged.
\<close>

theorem failed_append_leaves_state:
  "append_call k v s = Raised e s' \<Longrightarrow> s' = s"
  by (simp add: append_call_cases split: if_splits)

theorem failed_append_leaves_state_witness:
  "append_call Element ''div'' selector_x
     = Raised OrderViolation (state_of (append_call Element ''div'' selector_x))
   \<and> state_of (append_call Element ''div'' selector_x) = selector_x"
proof -
  have h: "append_call Element ''div'' selector_x
        = Raised OrderViolation (state_of (append_call Element ''div'' selector_x))"
    by (simp add: selector_x_eq append_call_cases[of Element, simplified] capped_def rank_simps
        ex_selectorType)
  from failed_append_leaves_state[OF h] h show ?thesis by simp
qed

subsection \<open>Rendering twice\<close>

text \<open>
  Claim C8: on every selector, combined or not, any number of \<^verbatim>\<open>stringify()\<close> calls in a
  row return the same string each time, and leave the state of the selector as it was.
\<close>

theorem stringify_repeat:
  "stringify_times n s = (replicate n (fst (stringify s)), s)"
  by (induction n) (simp_all add: stringify_def)

theorem stringify_repeat_witness:
  "stringify_times 3 chain_a_b = ([''a > b'', ''a > b'', ''a > b''], chain_a_b)"
  using stringify_repeat[of 3 chain_a_b]
  by (simp add: chain_a_b_eq stringify_def numeral_3_eq_3)

subsection \<open>Any string as combinator\<close>



subsection \<open>Appending to a combined selector\<close>

text \<open>
  Claim C10: once a selector holds a non-empty chain, every appending call on it that
  returns leaves the string returned by \<^verbatim>\<open>stringify()\<close> unchanged; the fragment is
  recorded all the same, in \<^verbatim>\<open>value\<close> and in the count of its kind.
\<close>

theorem append_after_combine:
  "length (selectorsToCombine s) \<noteq> 0 \<Longrightarrow> append_call k v s = Returned s' \<Longrightarrow>
     fst (stringify s') = fst (stringify s)
     \<and> value s' = value s @ canonical_rendering k v
     \<and> selectorOccurances s' k = selectorOccurances s k + 1"
  by (auto simp add: append_call_cases stringify_def split: if_splits)

theorem append_after_combine_witness:
  "length (selectorsToCombine chain_a_b) \<noteq> 0
   \<and> append_call Class ''y'' chain_a_b = Returned (state_of (append_call Class ''y'' chain_a_b))
   \<and> fst (stringify (state_of (append_call Class ''y'' chain_a_b))) = ''a > b''
   \<and> value (state_of (append_call Class ''y'' chain_a_b)) = ''.y''"
proof -
  have h1: "length (selectorsToCombine chain_a_b) \<noteq> 0"
    by (simp add: chain_a_b_eq)
  have h2: "append_call Class ''y'' chain_a_b = Returned (state_of (append_call Class ''y'' chain_a_b))"
    by (simp add: chain_a_b_eq append_call_cases[of Class, simplified] capped_def rank_simps
        ex_selectorType)
  have "fst (stringify chain_a_b) = ''a > b''" "value chain_a_b = []"
    by (simp_all add: chain_a_b_eq stringify_def)
  with append_after_combine[OF h1 h2] h1 h2 show ?thesis by simp
qed

section \<open>The rectangle through JSON and back\<close>

lemma getJSON_rectangle:
  \<open>getJSON (Rectangle (JNumber 10) (JNumber 20)) = Some ''{"width":10,"height":20}''\<close>
  by code_simp

lemma JSON_parse_rectangle:
  \<open>JSON_parse ''{"width":10,"height":20}'' =
     Some (JObject [(''width'', JNumber 10), (''height'', JNumber 20)] Object_prototype)\<close>
  by code_simp

lemma Get_getArea_rectangle:
  "Get (Rectangle w h) ''getArea'' = Some (JFunction (Rectangle_getArea w h))"
  by (simp add: Rectangle_def)

text \<open>
  Claim C7: the JSON text of \<^verbatim>\<open>Rectangle(10, 20)\<close>, parsed back by \<^verbatim>\<open>fromJSON\<close>, gives an
  object with \<^verbatim>\<open>width\<close> 10 and \<^verbatim>\<open>height\<close> 20; and when the caller passes as prototype an
  object that carries the method of the shape (the JSON text has lost it), calling
  \<^verbatim>\<open>getArea()\<close> on the result returns 200. The method is either the \<^verbatim>\<open>getArea\<close> of the
  rectangle itself, or one that multiplies \<^verbatim>\<open>this.width\<close> and \<^verbatim>\<open>this.height\<close>.
\<close>

theorem rectangle_json_roundtrip:
  assumes "Get proto ''getArea'' = Some (JFunction f)"
    and "f = Rectangle_getArea (JNumber 10) (JNumber 20) \<or> f = This_width_times_height"
  shows "\<exists>json obj.
           getJSON (Rectangle (JNumber 10) (JNumber 20)) = Some json
           \<and> fromJSON proto json = Some obj
           \<and> Get obj ''width'' = Some (JNumber 10)
           \<and> Get obj ''height'' = Some (JNumber 20)
           \<and> call_method obj ''getArea'' = Some (JNumber 200)"
proof -
  from assms(1) obtain props p where proto: "proto = JObject props p"
    by (cases proto) simp_all
  let ?obj = "JObject [(''width'', JNumber 10), (''height'', JNumber 20)] proto"
  have f: \<open>fromJSON proto ''{"width":10,"height":20}'' = Some ?obj\<close>
    by (simp add: fromJSON_def JSON_parse_rectangle proto Object_prototype_def)
  have w: "Get ?obj ''width'' = Some (JNumber 10)" by simp
  have h: "Get ?obj ''height'' = Some (JNumber 20)" by simp
  have g: "Get ?obj ''getArea'' = Some (JFunction f)"
    using assms(1) by simp
  have "Call f ?obj = Some (JNumber 200)"
    using assms(2) by (auto simp add: exact_def)
  with g have a: "call_method ?obj ''getArea'' = Some (JNumber 200)"
    by (simp add: call_method_def)
  from getJSON_rectangle f w h a show ?thesis by blast
qed

theorem rectangle_json_roundtrip_witness:
  \<open>Get (Rectangle (JNumber 10) (JNumber 20)) ''getArea''
     = Some (JFunction (Rectangle_getArea (JNumber 10) (JNumber 20)))
   \<and> Get (JObject [(''getArea'', JFunction This_width_times_height)] Object_prototype) ''getArea''
     = Some (JFunction This_width_times_height)
   \<and> getJSON (Rectangle (JNumber 10) (JNumber 20)) = Some ''{"width":10,"height":20}''
   \<and> (\<exists>obj. fromJSON (Rectangle (JNumber 10) (JNumber 20)) ''{"width":10,"height":20}'' = Some obj
          \<and> Get obj ''width'' = Some (JNumber 10)
          \<and> Get obj ''height'' = Some (JNumber 20)
          \<and> call_method obj ''getArea'' = Some (JNumber 200))
   \<and> (\<exists>obj. fromJSON (JObject [(''getArea'', JFunction This_width_times_height)] Object_prototype)
            ''{"width":10,"height":20}'' = Some obj
          \<and> Get obj ''width'' = Some (JNumber 10)
          \<and> Get obj ''height'' = Some (JNumber 20)
          \<and> call_method obj ''getArea'' = Some (JNumber 200))\<close>
proof -
  have g1: "Get (Rectangle (JNumber 10) (JNumber 20)) ''getArea''
      = Some (JFunction (Rectangle_getArea (JNumber 10) (JNumber 20)))"
    by (rule Get_getArea_rectangle)
  have g2: "Get (JObject [(''getArea'', JFunction This_width_times_height)] Object_prototype) ''getArea''
      = Some (JFunction This_width_times_height)"
    by simp
  from rectangle_json_roundtrip[OF g1] rectangle_json_roundtrip[OF g2] g1 g2
  show ?thesis
    by (simp add: getJSON_rectangle)
qed

end
